theory Spec2Isabelle
  imports Main "HOL-Library.Word"
begin

section \<open>net.go: the connection-limiting listener\<close>

text \<open>
  \<^verbatim>\<open>ListenerError\<close> is the error type of the listener; \<^verbatim>\<open>Temporary()\<close> returns
  its \<^verbatim>\<open>IsTemporary\<close> field. \<^verbatim>\<open>Accept\<close> returns a value of Go's \<^verbatim>\<open>error\<close>
  interface: one of the two package-level listener errors, or whatever the wrapped
  listener returned (kept as its message).
\<close>

record ListenerError =
  Message :: string
  IsTemporary :: bool

definition errTooBusy :: ListenerError where
  "errTooBusy = \<lparr>Message = ''Too many requests'', IsTemporary = True\<rparr>"

definition errClosed :: ListenerError where
  "errClosed = \<lparr>Message = ''Listener closed'', IsTemporary = False\<rparr>"

definition Temporary :: "ListenerError \<Rightarrow> bool" where
  "Temporary err = IsTemporary err"

datatype net_error = Listener_error ListenerError | Underlying_error string

text \<open>
  The interfaces the listener is written against (\<^verbatim>\<open>net.Listener\<close>, \<^verbatim>\<open>net.Conn\<close> and
  the package's \<^verbatim>\<open>keepAliver\<close>) are a record of operations over an abstract listener
  state \<open>'u\<close> and an abstract socket \<open>'c\<close>. \<^verbatim>\<open>isKeepAliver\<close> is the type assertion
  \<^verbatim>\<open>c.(keepAliver)\<close>; the errors of the two keep-alive setters are dropped by the
  source, so the setters return the socket only.
\<close>

record ('u, 'c) NetOps =
  Listener_Accept :: "'u \<Rightarrow> (string + 'c) \<times> 'u"
  Listener_Close :: "'u \<Rightarrow> string option \<times> 'u"
  Conn_Close :: "'c \<Rightarrow> string option \<times> 'c"
  isKeepAliver :: "'c \<Rightarrow> bool"
  SetKeepAlive :: "'c \<Rightarrow> bool \<Rightarrow> 'c"
  SetKeepAlivePeriod :: "'c \<Rightarrow> int \<Rightarrow> 'c"

text \<open>
  Modelled from the spec: the type \<^verbatim>\<open>Once\<close> of the field \<^verbatim>\<open>closeOnce\<close> is declared
  outside net.go. The spec says that Close is idempotent, that concurrent Close calls
  collapse to a single underlying close, and that Accept fails permanently once Close has
  been observed. So \<^verbatim>\<open>Once\<close> is a latch: \<^verbatim>\<open>IsDone\<close> reads it, \<^verbatim>\<open>Do\<close> runs its
  argument and sets the latch when it is not set yet. What a repeated \<^verbatim>\<open>Do\<close> returns is
  not said; the model returns no error there.
\<close>

datatype Once = Once (latch: bool)

definition IsDone :: "Once \<Rightarrow> bool" where
  "IsDone once = latch once"

definition Once_Do :: "Once \<Rightarrow> ('s \<Rightarrow> string option \<times> 's) \<Rightarrow> 's \<Rightarrow> string option \<times> Once \<times> 's" where
  "Once_Do once f s =
     (if latch once then (None, once, s)
      else (case f s of (err, s') \<Rightarrow> (err, Once True, s')))"

text \<open>
  \<^verbatim>\<open>sync.Once\<close> of the standard library, as its done flag: \<^verbatim>\<open>Do(f)\<close> calls \<open>f\<close> if and
  only if \<^verbatim>\<open>Do\<close> has not been called on this instance before.
\<close>

definition sync_Once_Do :: "bool \<Rightarrow> ('s \<Rightarrow> 's) \<Rightarrow> 's \<Rightarrow> bool \<times> 's" where
  "sync_Once_Do done_flag f s = (if done_flag then (done_flag, s) else (True, f s))"

text \<open>
  \<^verbatim>\<open>LimitListener\<close>. \<^verbatim>\<open>conns\<close> is an \<^verbatim>\<open>int32\<close> changed by \<^verbatim>\<open>atomic.AddInt32\<close>, which
  wraps; \<^verbatim>\<open>MaxConns\<close> is only ever compared, and \<^verbatim>\<open>KeepAlivePeriod\<close> is a duration in
  nanoseconds that is compared with zero and handed on.
\<close>

record 'u LimitListener =
  Listener :: 'u
  MaxConns :: int
  KeepAlivePeriod :: int
  conns :: "32 word"
  closeOnce :: Once

definition LimitListener_addConn :: "'u LimitListener \<Rightarrow> 'u LimitListener" where
  "LimitListener_addConn l = l\<lparr>conns := conns l + 1\<rparr>"

definition LimitListener_removeConn :: "'u LimitListener \<Rightarrow> 'u LimitListener" where
  "LimitListener_removeConn l = l\<lparr>conns := conns l - 1\<rparr>"

definition LimitListener_ConnCount :: "'u LimitListener \<Rightarrow> int" where
  "LimitListener_ConnCount l = sint (conns l)"

definition LimitListener_setKeepAlive :: "('u, 'c) NetOps \<Rightarrow> 'u LimitListener \<Rightarrow> 'c \<Rightarrow> 'c" where
  "LimitListener_setKeepAlive N l c =
     (if KeepAlivePeriod l \<le> 0 then c
      else if \<not> isKeepAliver N c then c
      else SetKeepAlivePeriod N (SetKeepAlive N c True) (KeepAlivePeriod l))"

text \<open>
  \<^verbatim>\<open>limitConn\<close> wraps an accepted socket. \<^verbatim>\<open>removeConn\<close> is the closure stored in the
  wrapper; it acts on the state \<open>'s\<close> it was taken from (the listener), which the model
  passes in and out of \<^verbatim>\<open>Close\<close>.
\<close>

record ('c, 's) limitConn =
  Conn :: 'c
  removeOnce :: bool
  removeConn :: "'s \<Rightarrow> 's"

definition limitConn_Close ::
  "('u, 'c) NetOps \<Rightarrow> ('c, 's) limitConn \<Rightarrow> 's \<Rightarrow> string option \<times> ('c, 's) limitConn \<times> 's" where
  "limitConn_Close N c s =
     (case Conn_Close N (Conn c) of (err, k) \<Rightarrow>
        (case sync_Once_Do (removeOnce c) (removeConn c) s of (fired, s') \<Rightarrow>
           (err, c\<lparr>Conn := k, removeOnce := fired\<rparr>, s')))"

definition LimitListener_Accept ::
  "('u, 'c) NetOps \<Rightarrow> 'u LimitListener \<Rightarrow>
     (net_error + ('c, 'u LimitListener) limitConn) \<times> 'u LimitListener" where
  "LimitListener_Accept N l =
     (if IsDone (closeOnce l) then (Inl (Listener_error errClosed), l)
      else if LimitListener_ConnCount l \<ge> MaxConns l then (Inl (Listener_error errTooBusy), l)
      else (case Listener_Accept N (Listener l) of
              (Inl err, u) \<Rightarrow> (Inl (Underlying_error err), l\<lparr>Listener := u\<rparr>)
            | (Inr socket, u) \<Rightarrow>
                (Inr \<lparr>Conn = LimitListener_setKeepAlive N l socket, removeOnce = False,
                      removeConn = LimitListener_removeConn\<rparr>,
                 LimitListener_addConn (l\<lparr>Listener := u\<rparr>))))"

definition LimitListener_Close ::
  "('u, 'c) NetOps \<Rightarrow> 'u LimitListener \<Rightarrow> string option \<times> 'u LimitListener" where
  "LimitListener_Close N l =
     (case Once_Do (closeOnce l) (Listener_Close N) (Listener l) of
        (err, once, u) \<Rightarrow> (err, l\<lparr>Listener := u, closeOnce := once\<rparr>))"

text \<open>
  A run of \<open>n\<close> consecutive \<^verbatim>\<open>Close\<close> calls on one wrapped connection, each call
  continuing from the connection and the shared state the previous one left.
\<close>

fun Close_times ::
  "('u, 'c) NetOps \<Rightarrow> nat \<Rightarrow> ('c, 's) limitConn \<Rightarrow> 's \<Rightarrow> ('c, 's) limitConn \<times> 's" where
  "Close_times N 0 c s = (c, s)"
| "Close_times N (Suc n) c s =
     (case limitConn_Close N c s of (err, c', s') \<Rightarrow> Close_times N n c' s')"

text \<open>
  A listener over a queue of pending sockets, for evaluating the model: the underlying
  state is the number of accepts it has served, sockets are numbered, every socket
  supports keep-alive and closes without error.
\<close>

definition testNet :: "(nat, nat) NetOps" where
  "testNet = \<lparr>Listener_Accept = (\<lambda>u. (Inr u, Suc u)),
              Listener_Close = (\<lambda>u. (None, u)),
              Conn_Close = (\<lambda>c. (None, c)),
              isKeepAliver = (\<lambda>c. True),
              SetKeepAlive = (\<lambda>c b. c),
              SetKeepAlivePeriod = (\<lambda>c p. c)\<rparr>"

definition testListener :: "nat LimitListener" where
  "testListener = \<lparr>Listener = 0, MaxConns = 2, KeepAlivePeriod = 0, conns = 0,
                   closeOnce = Once False\<rparr>"

section \<open>worker.go: the frame classifier\<close>

text \<open>
  The error values of the package are declared outside worker.go; only their identity
  matters here. \<open>ErrOther\<close> stands for an error a collaborator (the store, the socket)
  returned.
\<close>

datatype error =
    ErrUnknownCommand
  | ErrInvalidCommand
  | ErrInvalidParams
  | ErrNoParams
  | ErrInvalidID
  | ErrExistingID
  | ErrBadPayload
  | ErrTooManyPings
  | ErrOther string

text \<open>
  \<^verbatim>\<open>isPingBody\<close>. A \<^verbatim>\<open>[]byte\<close> is a list of 8-bit characters. The loop over the bytes
  returns from the function at the first byte that is neither a brace nor white space;
  \<open>countBraces\<close> is that loop, \<open>None\<close> being the early return. The two counters are Go
  \<^verbatim>\<open>int\<close>s bounded by the length of the slice, so they cannot overflow.
\<close>

fun countBraces :: "string \<Rightarrow> int \<Rightarrow> int \<Rightarrow> (int \<times> int) option" where
  "countBraces [] leftBraces rightBraces = Some (leftBraces, rightBraces)"
| "countBraces (b # raw) leftBraces rightBraces =
     (if b = CHR ''{'' then countBraces raw (leftBraces + 1) rightBraces
      else if b = CHR ''}'' then countBraces raw leftBraces (rightBraces + 1)
      else if b = CHR 0x09 \<or> b = CHR 0x0D \<or> b = CHR 0x0A \<or> b = CHR '' ''
        then countBraces raw leftBraces rightBraces
      else None)"

definition isPingBody :: "string \<Rightarrow> bool \<times> error option" where
  "isPingBody raw =
     (if length raw < 2 \<or> (length raw = 2 \<and> raw ! 0 = CHR ''{'' \<and> raw ! 1 = CHR ''}'')
        then (True, None)
      else (case countBraces raw 0 0 of
              None \<Rightarrow> (False, None)
            | Some (leftBraces, rightBraces) \<Rightarrow>
                if leftBraces \<le> 1 \<and> leftBraces = rightBraces then (True, None)
                else (False, Some ErrBadPayload)))"

section \<open>worker.go: data\<close>

text \<open>
  JSON values whose shape the worker does not inspect (the elements of \<^verbatim>\<open>channelIDs\<close>,
  the values of a \<^verbatim>\<open>JsMap\<close>).
\<close>

datatype json =
    JNull
  | JBool bool
  | JNum int
  | JStr string
  | JArr "json list"
  | JObj "(string \<times> json) list"

type_synonym JsMap = "(string \<times> json) list"

datatype WorkerState = WorkerInactive | WorkerActive

text \<open>
  The fields of \<^verbatim>\<open>Application\<close> that the worker reads. \<^verbatim>\<open>storeMaxChannels\<close> is what
  \<^verbatim>\<open>app.Store().MaxChannels()\<close> returns. Durations are nanoseconds.
\<close>

record Application =
  clientMinPing :: int
  clientHelloTimeout :: int
  pushLongPongs :: bool
  storeMaxChannels :: int

text \<open>
  \<^verbatim>\<open>Worker\<close>. The logger and the metrics sink are reached through the connection in
  the model (see \<open>events\<close> below). A \<^verbatim>\<open>time.Time\<close> is the number of nanoseconds since
  the zero instant, so that \<^verbatim>\<open>IsZero\<close> is equality with 0.
\<close>

record Worker =
  app :: Application
  id_w :: string
  state :: WorkerState
  stopped :: bool
  maxChannels :: int
  lastPing :: int
  pingInt :: int
  helloTimeout :: int

record RequestHeader =
  Type :: string

text \<open>
  \<^verbatim>\<open>DeviceID\<close> is a \<^verbatim>\<open>*string\<close> (absent or present), \<^verbatim>\<open>ChannelIDs\<close> a slice that is
  \<^verbatim>\<open>nil\<close> when the field is absent, \<^verbatim>\<open>PingData\<close> the raw bytes of \<^verbatim>\<open>connect\<close>.
\<close>

record HelloRequest =
  DeviceID :: "string option"
  ChannelIDs :: "json list option"
  PingData :: string

datatype RegisterRequest = RegisterRequest (Register_ChannelID: string)

datatype UnregisterRequest = UnregisterRequest (Unregister_ChannelID: string)

datatype Update = Update (Update_ChannelID: string) (Update_Version: "64 word")

record ACKRequest =
  Updates :: "Update list"
  Expired :: "string list"

text \<open>
  The reply structs, with their fields in declaration order as the source's positional
  literals give them: \<^verbatim>\<open>RegisterReply{Type, DeviceID, Status, ChannelID, Endpoint}\<close>,
  \<^verbatim>\<open>UnregisterReply{Type, Status, ChannelID}\<close>, \<^verbatim>\<open>FlushReply{Type, Updates, Expired}\<close>,
  \<^verbatim>\<open>PingReply{Type, Status}\<close>.
\<close>

datatype reply =
    RegisterReply string string int string string
  | UnregisterReply string int string
  | FlushReply string "Update list" "string list"
  | PingReply string int

text \<open>
  What a handler hands to the socket: raw bytes through \<^verbatim>\<open>sock.Socket.Write\<close>, a
  value through \<^verbatim>\<open>websocket.JSON.Send\<close>, or bytes through \<^verbatim>\<open>websocket.Message.Send\<close>.
\<close>

datatype frame =
    Socket_Write string
  | JSON_Send reply
  | Message_Send string

text \<open>
  A command for the router. The source also stores the worker itself under the key
  \<^verbatim>\<open>"worker"\<close> of a \<^verbatim>\<open>HELLO\<close> command; that pointer is not represented.
\<close>

datatype Command = HELLO | REGIS

record PushCommand =
  Command :: Command
  Arguments :: JsMap

text \<open>
  Every call that leaves the worker is recorded, in order, in the \<open>events\<close> of the
  connection. Logger calls return nothing and guard no branch of the handlers, so they
  are left out, with one exception: the warning in \<^verbatim>\<open>Ping\<close> evaluates
  \<^verbatim>\<open>sock.Socket.Config().Origin.String()\<close> for its fields, which dereferences a
  pointer; that evaluation is modelled (see \<open>Worker_Ping\<close>).
\<close>

datatype LogLevel = ERROR | WARNING | INFO | DEBUG

text \<open>
  A call either returns a value or panics. \<^verbatim>\<open>Ping\<close> has no \<^verbatim>\<open>recover\<close>, so a panic
  inside it leaves the handler and the \<^verbatim>\<open>switch\<close> that called it.
\<close>

datatype 'a outcome = Panics | Returns 'a

datatype event =
    Sent frame
  | RouterCommand PushCommand
  | ClientExistsCall string
  | GenerateCall
  | StoreExists string
  | StoreDropAll string
  | StoreRegister string string int
  | StoreUnregister string string
  | StoreDrop string string
  | StoreFetchAll string int
  | MetricIncrement string
  | MetricTimer string

text \<open>
  The collaborators, as operations over an abstract state \<open>'e\<close> of everything outside
  the worker (store, router, client registry, socket, random source):
  \<^item> \<^verbatim>\<open>json.Unmarshal\<close> into each request struct, \<open>None\<close> when it returns an error;
  \<^item> \<^verbatim>\<open>id.Valid\<close> and \<^verbatim>\<open>id.Generate\<close> of the identifier package;
  \<^item> \<^verbatim>\<open>app.ClientExists\<close> and \<^verbatim>\<open>app.Server().HandleCommand\<close>;
  \<^item> the methods of \<^verbatim>\<open>sock.Store\<close>;
  \<^item> the socket, which takes a frame and may return an error;
  \<^item> \<^verbatim>\<open>sock.Socket.Config().Origin\<close>, a \<^verbatim>\<open>*url.URL\<close>: \<open>None\<close> for the nil
    pointer, otherwise what its \<^verbatim>\<open>String()\<close> returns;
  \<^item> \<^verbatim>\<open>logger.ShouldLog\<close>, the level filter of the logger.
  None of these operations panics in the model, so the \<^verbatim>\<open>recover\<close> blocks of \<^verbatim>\<open>Hello\<close>,
  \<^verbatim>\<open>Ack\<close>, \<^verbatim>\<open>Register\<close> and \<^verbatim>\<open>Unregister\<close> have no counterpart.
\<close>

record 'e Deps =
  Unmarshal_Hello :: "string \<Rightarrow> HelloRequest option"
  Unmarshal_Register :: "string \<Rightarrow> RegisterRequest option"
  Unmarshal_Unregister :: "string \<Rightarrow> UnregisterRequest option"
  Unmarshal_ACK :: "string \<Rightarrow> ACKRequest option"
  id_Valid :: "string \<Rightarrow> bool"
  id_Generate :: "'e \<Rightarrow> (string \<times> error option) \<times> 'e"
  ClientExists :: "'e \<Rightarrow> string \<Rightarrow> bool"
  HandleCommand :: "'e \<Rightarrow> PushCommand \<Rightarrow> (int \<times> JsMap) \<times> 'e"
  Store_Exists :: "'e \<Rightarrow> string \<Rightarrow> bool"
  Store_DropAll :: "'e \<Rightarrow> string \<Rightarrow> error option \<times> 'e"
  Store_Register :: "'e \<Rightarrow> string \<Rightarrow> string \<Rightarrow> int \<Rightarrow> error option \<times> 'e"
  Store_Unregister :: "'e \<Rightarrow> string \<Rightarrow> string \<Rightarrow> error option \<times> 'e"
  Store_Drop :: "'e \<Rightarrow> string \<Rightarrow> string \<Rightarrow> error option \<times> 'e"
  Store_FetchAll :: "'e \<Rightarrow> string \<Rightarrow> int \<Rightarrow> (Update list \<times> string list \<times> error option) \<times> 'e"
  Socket_send :: "'e \<Rightarrow> frame \<Rightarrow> error option \<times> 'e"
  Socket_Origin :: "'e \<Rightarrow> string option"
  ShouldLog :: "LogLevel \<Rightarrow> bool"

text \<open>
  \<^verbatim>\<open>PushWS\<close>, the connection: the device id bound to it, the state of the collaborators
  behind it, and the calls made so far (oldest first).
\<close>

record 'e PushWS =
  Uaid :: string
  world :: 'e
  events :: "event list"

section \<open>worker.go: calls to the collaborators\<close>

definition emit :: "event \<Rightarrow> 'e PushWS \<Rightarrow> 'e PushWS" where
  "emit ev sock = sock\<lparr>events := events sock @ [ev]\<rparr>"

definition send :: "'e Deps \<Rightarrow> frame \<Rightarrow> 'e PushWS \<Rightarrow> error option \<times> 'e PushWS" where
  "send D f sock =
     (case Socket_send D (world sock) f of
        (err, e) \<Rightarrow> (err, emit (Sent f) (sock\<lparr>world := e\<rparr>)))"

definition call_Generate :: "'e Deps \<Rightarrow> 'e PushWS \<Rightarrow> (string \<times> error option) \<times> 'e PushWS" where
  "call_Generate D sock =
     (case id_Generate D (world sock) of
        (res, e) \<Rightarrow> (res, emit GenerateCall (sock\<lparr>world := e\<rparr>)))"

definition call_ClientExists :: "'e Deps \<Rightarrow> string \<Rightarrow> 'e PushWS \<Rightarrow> bool \<times> 'e PushWS" where
  "call_ClientExists D uaid sock =
     (ClientExists D (world sock) uaid, emit (ClientExistsCall uaid) sock)"

definition call_HandleCommand ::
  "'e Deps \<Rightarrow> PushCommand \<Rightarrow> 'e PushWS \<Rightarrow> (int \<times> JsMap) \<times> 'e PushWS" where
  "call_HandleCommand D cmd sock =
     (case HandleCommand D (world sock) cmd of
        (res, e) \<Rightarrow> (res, emit (RouterCommand cmd) (sock\<lparr>world := e\<rparr>)))"

definition call_Exists :: "'e Deps \<Rightarrow> string \<Rightarrow> 'e PushWS \<Rightarrow> bool \<times> 'e PushWS" where
  "call_Exists D uaid sock = (Store_Exists D (world sock) uaid, emit (StoreExists uaid) sock)"

definition call_DropAll :: "'e Deps \<Rightarrow> string \<Rightarrow> 'e PushWS \<Rightarrow> error option \<times> 'e PushWS" where
  "call_DropAll D uaid sock =
     (case Store_DropAll D (world sock) uaid of
        (err, e) \<Rightarrow> (err, emit (StoreDropAll uaid) (sock\<lparr>world := e\<rparr>)))"

definition call_Register ::
  "'e Deps \<Rightarrow> string \<Rightarrow> string \<Rightarrow> int \<Rightarrow> 'e PushWS \<Rightarrow> error option \<times> 'e PushWS" where
  "call_Register D uaid chid version sock =
     (case Store_Register D (world sock) uaid chid version of
        (err, e) \<Rightarrow> (err, emit (StoreRegister uaid chid version) (sock\<lparr>world := e\<rparr>)))"

definition call_Unregister ::
  "'e Deps \<Rightarrow> string \<Rightarrow> string \<Rightarrow> 'e PushWS \<Rightarrow> error option \<times> 'e PushWS" where
  "call_Unregister D uaid chid sock =
     (case Store_Unregister D (world sock) uaid chid of
        (err, e) \<Rightarrow> (err, emit (StoreUnregister uaid chid) (sock\<lparr>world := e\<rparr>)))"

definition call_Drop ::
  "'e Deps \<Rightarrow> string \<Rightarrow> string \<Rightarrow> 'e PushWS \<Rightarrow> error option \<times> 'e PushWS" where
  "call_Drop D uaid chid sock =
     (case Store_Drop D (world sock) uaid chid of
        (err, e) \<Rightarrow> (err, emit (StoreDrop uaid chid) (sock\<lparr>world := e\<rparr>)))"

definition call_FetchAll ::
  "'e Deps \<Rightarrow> string \<Rightarrow> int \<Rightarrow> 'e PushWS \<Rightarrow>
     (Update list \<times> string list \<times> error option) \<times> 'e PushWS" where
  "call_FetchAll D uaid since sock =
     (case Store_FetchAll D (world sock) uaid since of
        (res, e) \<Rightarrow> (res, emit (StoreFetchAll uaid since) (sock\<lparr>world := e\<rparr>)))"

section \<open>worker.go: the worker and its handlers\<close>

definition NewWorker :: "Application \<Rightarrow> string \<Rightarrow> Worker" where
  "NewWorker a ident =
     \<lparr>app = a, id_w = ident, state = WorkerActive, stopped = False,
      maxChannels = storeMaxChannels a, lastPing = 0, pingInt = clientMinPing a,
      helloTimeout = clientHelloTimeout a\<rparr>"

text \<open>
  \<^verbatim>\<open>Flush\<close>. The deferred function runs on every return and records the timer metric.
  The second half of the function (after \<^verbatim>\<open>reply\<close> is known to be non-nil) is
  \<open>Flush_reply\<close>: one \<^verbatim>\<open>updates.sent\<close> increment per update when a channel was given,
  then the send, whose error is dropped. \<^verbatim>\<open>uint64(version)\<close> is the conversion
  \<open>word_of_int\<close>.
\<close>

definition Flush_reply ::
  "'e Deps \<Rightarrow> Worker \<Rightarrow> 'e PushWS \<Rightarrow> string \<Rightarrow> Update list \<Rightarrow> reply \<Rightarrow>
     error option \<times> Worker \<times> 'e PushWS" where
  "Flush_reply D w sock channel updates rep =
     (let sock1 = (if length channel > 0
                   then fold (\<lambda>update. emit (MetricIncrement ''updates.sent'')) updates sock
                   else sock)
      in (case send D (JSON_Send rep) sock1 of (err, sock2) \<Rightarrow> (None, w, sock2)))"

definition Flush_body ::
  "'e Deps \<Rightarrow> Worker \<Rightarrow> 'e PushWS \<Rightarrow> int \<Rightarrow> string \<Rightarrow> int \<Rightarrow>
     error option \<times> Worker \<times> 'e PushWS" where
  "Flush_body D w sock lastAccessed channel version =
     (if Uaid sock = '''' then (None, w\<lparr>stopped := True\<rparr>, sock)
      else if length channel = 0 then
        (case call_FetchAll D (Uaid sock) lastAccessed sock of
           ((updates, expired, Some err), sock1) \<Rightarrow> (Some err, w, sock1)
         | ((updates, expired, None), sock1) \<Rightarrow>
             if length updates > 0 \<or> length expired > 0
             then Flush_reply D w sock1 channel updates
                    (FlushReply ''notification'' updates expired)
             else (None, w, sock1))
      else
        (let updates = [Update channel (word_of_int version)]
         in Flush_reply D w sock channel updates (FlushReply ''notification'' updates [])))"

definition Worker_Flush ::
  "'e Deps \<Rightarrow> Worker \<Rightarrow> 'e PushWS \<Rightarrow> int \<Rightarrow> string \<Rightarrow> int \<Rightarrow>
     error option \<times> Worker \<times> 'e PushWS" where
  "Worker_Flush D w sock lastAccessed channel version =
     (case Flush_body D w sock lastAccessed channel version of
        (err, w', sock') \<Rightarrow> (err, w', emit (MetricTimer ''client.flush'') sock'))"

text \<open>
  The hello reply is built by
  \<^verbatim>\<open>fmt.Sprintf(`{"messageType":"%s","status":%d,"uaid":"%s"}`, ...)\<close>; \<open>itoa\<close> is
  the verb \<^verbatim>\<open>%d\<close> and \<open>quoted\<close> puts a string between double quotes.
\<close>

fun decimal :: "nat \<Rightarrow> string" where
  "decimal n =
     (if n < 10 then [''0123456789'' ! n]
      else decimal (n div 10) @ [''0123456789'' ! (n mod 10)])"

declare decimal.simps [simp del]

definition itoa :: "int \<Rightarrow> string" where
  "itoa i = (if i < 0 then CHR ''-'' # decimal (nat (- i)) else decimal (nat i))"

definition quoted :: "string \<Rightarrow> string" where
  "quoted s = CHR 0x22 # s @ [CHR 0x22]"

definition Sprintf_hello :: "string \<Rightarrow> int \<Rightarrow> string \<Rightarrow> string" where
  "Sprintf_hello messageType status uaid =
     ''{'' @ quoted ''messageType'' @ '':'' @ quoted messageType @
     '','' @ quoted ''status'' @ '':'' @ itoa status @
     '','' @ quoted ''uaid'' @ '':'' @ quoted uaid @ ''}''"

text \<open>
  \<^verbatim>\<open>Hello\<close>, in two parts. \<open>registerDevice\<close> is the code from the label of that name to
  the end of the function, entered with the current value of \<^verbatim>\<open>forceReset\<close>.
  \<open>Hello_decide\<close> is the code before the label: it returns the error of an early
  \<^verbatim>\<open>return\<close>, or the value of \<^verbatim>\<open>forceReset\<close> and the connection with which the label is
  reached. The \<^verbatim>\<open>&&\<close> of the last test evaluates \<^verbatim>\<open>Store.Exists\<close> first.
\<close>

definition registerDevice ::
  "'e Deps \<Rightarrow> Worker \<Rightarrow> 'e PushWS \<Rightarrow> RequestHeader \<Rightarrow> HelloRequest \<Rightarrow> bool \<Rightarrow>
     error option \<times> Worker \<times> 'e PushWS" where
  "registerDevice D w sock header request forceReset =
     (let sock1 = (if forceReset
                   then (case call_Generate D sock of
                           ((generated, err), s) \<Rightarrow> s\<lparr>Uaid := generated\<rparr>)
                   else sock);
          cmd = \<lparr>Command = HELLO,
                 Arguments = [(''uaid'', JStr (Uaid sock1)),
                              (''chids'', JArr (case ChannelIDs request of
                                                  None \<Rightarrow> [] | Some chids \<Rightarrow> chids)),
                              (''connect'', JStr (PingData request))]\<rparr>
      in (case call_HandleCommand D cmd sock1 of
            ((status, args), sock2) \<Rightarrow>
              (case send D (Socket_Write (Sprintf_hello (Type header) status (Uaid sock2))) sock2 of
                 (err, sock3) \<Rightarrow>
                   (let sock4 = emit (MetricIncrement ''updates.client.hello'') sock3;
                        w1 = w\<lparr>state := WorkerActive\<rparr>
                    in if err = None then Worker_Flush D w1 sock4 0 '''' 0
                       else (err, w1, sock4)))))"

definition Hello_decide ::
  "'e Deps \<Rightarrow> Worker \<Rightarrow> 'e PushWS \<Rightarrow> string \<Rightarrow> json list \<Rightarrow> error + (bool \<times> 'e PushWS)" where
  "Hello_decide D w sock suggestedUAID chids =
     (if length (Uaid sock) > 0 then
        (if length suggestedUAID = 0 \<or> Uaid sock = suggestedUAID then Inr (False, sock)
         else Inl ErrExistingID)
      else if length suggestedUAID = 0 then Inr (True, sock)
      else if \<not> id_Valid D suggestedUAID then Inl ErrInvalidID
      else (case call_ClientExists D suggestedUAID sock of
              (collision, sock1) \<Rightarrow>
                if collision then Inr (True, sock1)
                else if int (length chids) > maxChannels w then
                  (case call_DropAll D suggestedUAID sock1 of
                     (err, sock2) \<Rightarrow> Inr (True, sock2))
                else (case call_Exists D (Uaid sock1) sock1 of
                        (known, sock2) \<Rightarrow>
                          if \<not> known \<and> length chids > 0 then Inr (True, sock2)
                          else Inr (False, sock2\<lparr>Uaid := suggestedUAID\<rparr>))))"

definition Worker_Hello ::
  "'e Deps \<Rightarrow> Worker \<Rightarrow> 'e PushWS \<Rightarrow> RequestHeader \<Rightarrow> string \<Rightarrow>
     error option \<times> Worker \<times> 'e PushWS" where
  "Worker_Hello D w sock header message =
     (case Unmarshal_Hello D message of
        None \<Rightarrow> (Some ErrInvalidParams, w, sock)
      | Some request \<Rightarrow>
          (case DeviceID request of
             None \<Rightarrow> (Some ErrInvalidParams, w, sock)
           | Some suggestedUAID \<Rightarrow>
               (case ChannelIDs request of
                  None \<Rightarrow> (Some ErrNoParams, w, sock)
                | Some chids \<Rightarrow>
                    (case Hello_decide D w sock suggestedUAID chids of
                       Inl err \<Rightarrow> (Some err, w, sock)
                     | Inr (forceReset, sock1) \<Rightarrow>
                         registerDevice D w sock1 header request forceReset))))"

text \<open>
  \<^verbatim>\<open>Ack\<close>. \<open>drop_each\<close> is either of the two \<^verbatim>\<open>range\<close> loops: it stops at the first
  \<^verbatim>\<open>Store.Drop\<close> that returns an error (the \<^verbatim>\<open>goto logError\<close>).
\<close>

fun drop_each :: "'e Deps \<Rightarrow> string list \<Rightarrow> 'e PushWS \<Rightarrow> error option \<times> 'e PushWS" where
  "drop_each D [] sock = (None, sock)"
| "drop_each D (channelID # rest) sock =
     (case call_Drop D (Uaid sock) channelID sock of
        (Some err, sock1) \<Rightarrow> (Some err, sock1)
      | (None, sock1) \<Rightarrow> drop_each D rest sock1)"

definition Worker_Ack ::
  "'e Deps \<Rightarrow> Worker \<Rightarrow> 'e PushWS \<Rightarrow> RequestHeader \<Rightarrow> string \<Rightarrow>
     error option \<times> Worker \<times> 'e PushWS" where
  "Worker_Ack D w sock header message =
     (if Uaid sock = '''' then (Some ErrInvalidCommand, w, sock)
      else (case Unmarshal_ACK D message of
              None \<Rightarrow> (Some ErrInvalidParams, w, sock)
            | Some request \<Rightarrow>
                if length (Updates request) = 0 then (Some ErrNoParams, w, sock)
                else (let sock1 = emit (MetricIncrement ''updates.client.ack'') sock
                      in (case drop_each D (map Update_ChannelID (Updates request)) sock1 of
                            (Some err, sock2) \<Rightarrow> (Some err, w, sock2)
                          | (None, sock2) \<Rightarrow>
                              (case drop_each D (Expired request) sock2 of
                                 (Some err, sock3) \<Rightarrow> (Some err, w, sock3)
                               | (None, sock3) \<Rightarrow> Worker_Flush D w sock3 0 '''' 0)))))"

text \<open>
  \<^verbatim>\<open>Register\<close>. The endpoint is \<^verbatim>\<open>args["push.endpoint"].(string)\<close> with the comma-ok
  form: the empty string when the key is missing or not a string.
\<close>

definition Worker_Register ::
  "'e Deps \<Rightarrow> Worker \<Rightarrow> 'e PushWS \<Rightarrow> RequestHeader \<Rightarrow> string \<Rightarrow>
     error option \<times> Worker \<times> 'e PushWS" where
  "Worker_Register D w sock header message =
     (if Uaid sock = '''' then (Some ErrInvalidCommand, w, sock)
      else (case Unmarshal_Register D message of
              None \<Rightarrow> (Some ErrInvalidParams, w, sock)
            | Some request \<Rightarrow>
                if \<not> id_Valid D (Register_ChannelID request) then (Some ErrInvalidParams, w, sock)
                else (case call_Register D (Uaid sock) (Register_ChannelID request) 0 sock of
                        (Some err, sock1) \<Rightarrow> (Some err, w, sock1)
                      | (None, sock1) \<Rightarrow>
                          (case call_HandleCommand D
                                  \<lparr>Command = REGIS,
                                   Arguments = [(''channelID'', JStr (Register_ChannelID request))]\<rparr>
                                  sock1 of
                             ((status, args), sock2) \<Rightarrow>
                               (let endpoint = (case map_of args ''push.endpoint'' of
                                                  Some (JStr s) \<Rightarrow> s | _ \<Rightarrow> '''');
                                    statusCode = 200
                                in (case send D (JSON_Send (RegisterReply (Type header) (Uaid sock2)
                                                   statusCode (Register_ChannelID request) endpoint))
                                           sock2 of
                                      (err, sock3) \<Rightarrow>
                                        (None, w,
                                         emit (MetricIncrement ''updates.client.register'') sock3)))))))"

definition Worker_Unregister ::
  "'e Deps \<Rightarrow> Worker \<Rightarrow> 'e PushWS \<Rightarrow> RequestHeader \<Rightarrow> string \<Rightarrow>
     error option \<times> Worker \<times> 'e PushWS" where
  "Worker_Unregister D w sock header message =
     (if Uaid sock = '''' then (Some ErrInvalidCommand, w, sock)
      else (case Unmarshal_Unregister D message of
              None \<Rightarrow> (Some ErrInvalidParams, w, sock)
            | Some request \<Rightarrow>
                if length (Unregister_ChannelID request) = 0 then (Some ErrNoParams, w, sock)
                else (case call_Unregister D (Uaid sock) (Unregister_ChannelID request) sock of
                        (err, sock1) \<Rightarrow>
                          (case send D (JSON_Send (UnregisterReply (Type header) 200
                                             (Unregister_ChannelID request))) sock1 of
                             (err', sock2) \<Rightarrow>
                               (None, w,
                                emit (MetricIncrement ''updates.client.unregister'') sock2)))))"

text \<open>
  \<^verbatim>\<open>Ping\<close> reads the clock once; the reading is the argument \<open>now\<close>. In the
  rate-limited branch the warning is built before anything else happens: when the logger
  takes warnings, \<^verbatim>\<open>Origin.String()\<close> is evaluated, and on a nil \<^verbatim>\<open>Origin\<close> that is
  a nil pointer dereference, a panic that nothing in \<^verbatim>\<open>Ping\<close> recovers.
  \<^verbatim>\<open>Time.Sub\<close> returns a \<^verbatim>\<open>Duration\<close> (an \<^verbatim>\<open>int64\<close> of nanoseconds) and saturates at
  the least and the greatest duration.
\<close>

definition minDuration :: int where
  "minDuration = - (2 ^ 63)"

definition maxDuration :: int where
  "maxDuration = 2 ^ 63 - 1"

definition Time_Sub :: "int \<Rightarrow> int \<Rightarrow> int" where
  "Time_Sub t u =
     (if t - u < minDuration then minDuration
      else if t - u > maxDuration then maxDuration
      else t - u)"

definition Time_IsZero :: "int \<Rightarrow> bool" where
  "Time_IsZero t = (t = 0)"

definition Worker_Ping ::
  "'e Deps \<Rightarrow> int \<Rightarrow> Worker \<Rightarrow> 'e PushWS \<Rightarrow> RequestHeader \<Rightarrow> string \<Rightarrow>
     (error option \<times> Worker \<times> 'e PushWS) outcome" where
  "Worker_Ping D now w sock header message =
     (if pingInt w > 0 \<and> \<not> Time_IsZero (lastPing w) \<and> Time_Sub now (lastPing w) < pingInt w
      then (if ShouldLog D WARNING \<and> Socket_Origin D (world sock) = None then Panics
            else Returns (Some ErrTooManyPings, w\<lparr>stopped := True\<rparr>,
                          emit (MetricIncrement ''updates.client.too_many_pings'') sock))
      else (let w1 = w\<lparr>lastPing := now\<rparr>
            in (case send D (if pushLongPongs (app w)
                             then JSON_Send (PingReply (Type header) 200)
                             else Message_Send ''{}'') sock of
                  (err, sock1) \<Rightarrow>
                    Returns (None, w1, emit (MetricIncrement ''updates.client.ping'') sock1))))"

definition Worker_Purge ::
  "'e Deps \<Rightarrow> Worker \<Rightarrow> 'e PushWS \<Rightarrow> RequestHeader \<Rightarrow> string \<Rightarrow>
     error option \<times> Worker \<times> 'e PushWS" where
  "Worker_Purge D w sock header message =
     (case send D (Message_Send ''{}'') sock of (err, sock1) \<Rightarrow> (None, w, sock1))"

text \<open>
  The \<^verbatim>\<open>switch\<close> of \<^verbatim>\<open>sniffer\<close> on \<^verbatim>\<open>strings.ToLower(header.Type)\<close>; the lower-cased
  message type is the argument \<open>lowered\<close>. A panic of \<^verbatim>\<open>Ping\<close> passes through it.
\<close>

definition sniffer_switch ::
  "'e Deps \<Rightarrow> int \<Rightarrow> string \<Rightarrow> Worker \<Rightarrow> 'e PushWS \<Rightarrow> RequestHeader \<Rightarrow> string \<Rightarrow>
     (error option \<times> Worker \<times> 'e PushWS) outcome" where
  "sniffer_switch D now lowered w sock header raw =
     (if lowered = ''ping'' then Worker_Ping D now w sock header raw
      else if lowered = ''hello'' then Returns (Worker_Hello D w sock header raw)
      else if lowered = ''ack'' then Returns (Worker_Ack D w sock header raw)
      else if lowered = ''register'' then Returns (Worker_Register D w sock header raw)
      else if lowered = ''unregister'' then Returns (Worker_Unregister D w sock header raw)
      else if lowered = ''purge'' then Returns (Worker_Purge D w sock header raw)
      else Returns (Some ErrUnknownCommand, w, sock))"

section \<open>Fixtures for evaluating the handlers\<close>

text \<open>
  A collaborator set over a store that is the list of the device ids it knows. Every
  message decodes to the same request of each kind; identifiers are well formed when they
  are not empty; the router answers 200 with an endpoint; the store refuses to unregister;
  the socket never fails and has an origin; the logger takes errors and warnings.
\<close>

definition testUaid :: string where
  "testUaid = ''f7067d1d3ce74ac2a1c3e2b22f2e1a4d''"

definition testHello :: HelloRequest where
  "testHello = \<lparr>DeviceID = Some testUaid, ChannelIDs = Some [JStr ''chan1''], PingData = ''''\<rparr>"

definition testDeps :: "string list Deps" where
  "testDeps =
     \<lparr>Unmarshal_Hello = (\<lambda>m. Some testHello),
      Unmarshal_Register = (\<lambda>m. Some (RegisterRequest ''chan1'')),
      Unmarshal_Unregister = (\<lambda>m. Some (UnregisterRequest ''chan1'')),
      Unmarshal_ACK = (\<lambda>m. Some \<lparr>Updates = [Update ''chan1'' 1], Expired = []\<rparr>),
      id_Valid = (\<lambda>s. s \<noteq> []),
      id_Generate = (\<lambda>e. ((''0123456789abcdef0123456789abcdef'', None), e)),
      ClientExists = (\<lambda>e uaid. False),
      HandleCommand = (\<lambda>e cmd. ((200, [(''push.endpoint'', JStr ''http://push/1'')]), e)),
      Store_Exists = (\<lambda>e uaid. uaid \<in> set e),
      Store_DropAll = (\<lambda>e uaid. (None, removeAll uaid e)),
      Store_Register = (\<lambda>e uaid chid version. (None, e)),
      Store_Unregister = (\<lambda>e uaid chid. (Some (ErrOther ''no such channel''), e)),
      Store_Drop = (\<lambda>e uaid chid. (None, e)),
      Store_FetchAll = (\<lambda>e uaid since. (([], [], None), e)),
      Socket_send = (\<lambda>e f. (None, e)),
      Socket_Origin = (\<lambda>e. Some ''http://localhost''),
      ShouldLog = (\<lambda>level. level = ERROR \<or> level = WARNING)\<rparr>"

text \<open>The same collaborators with an identifier generator that fails.\<close>

definition failingGenerator :: "string list Deps" where
  "failingGenerator =
     testDeps\<lparr>id_Generate := (\<lambda>e. (('''', Some (ErrOther ''no entropy'')), e))\<rparr>"

definition testApp :: Application where
  "testApp = \<lparr>clientMinPing = 1000000000, clientHelloTimeout = 30000000000,
              pushLongPongs = False, storeMaxChannels = 200\<rparr>"

text \<open>A connection before any hello, over a store that knows \<open>testUaid\<close>.\<close>

definition freshSock :: "string list PushWS" where
  "freshSock = \<lparr>Uaid = '''', world = [testUaid], events = []\<rparr>"

definition boundSock :: "string list PushWS" where
  "boundSock = \<lparr>Uaid = testUaid, world = [testUaid], events = []\<rparr>"

definition testHeader :: "string \<Rightarrow> RequestHeader" where
  "testHeader t = \<lparr>Type = t\<rparr>"

text \<open>
  Three workers: one that pinged at 1000000000 ns, one of an application that sends long
  pongs, and one of an application without a ping rate limit that pinged at 10 ns.
\<close>

definition pingedWorker :: Worker where
  "pingedWorker = (NewWorker testApp ''r1'')\<lparr>lastPing := 1000000000\<rparr>"

definition longPongWorker :: Worker where
  "longPongWorker = NewWorker (testApp\<lparr>pushLongPongs := True\<rparr>) ''r1''"

definition unlimitedWorker :: Worker where
  "unlimitedWorker = (NewWorker (testApp\<lparr>clientMinPing := 0\<rparr>) ''r1'')\<lparr>lastPing := 10\<rparr>"

text \<open>A listener that is at its limit and has been closed.\<close>

definition closedFullListener :: "nat LimitListener" where
  "closedFullListener = testListener\<lparr>conns := 2, closeOnce := Once True\<rparr>"

text \<open>A listener that is at its limit and still open.\<close>

definition fullListener :: "nat LimitListener" where
  "fullListener = testListener\<lparr>conns := 2\<rparr>"

section \<open>The listener: counting and refusing\<close>

lemma Close_times_fired:
  "removeOnce c \<Longrightarrow> snd (Close_times N n c s) = s"
  by (induction n arbitrary: c s)
     (auto simp: limitConn_Close_def sync_Once_Do_def split: prod.splits)

lemma Close_times_latches:
  "removeOnce (fst (Close_times N (Suc n) c s))"
proof (induction n arbitrary: c s)
  case 0
  show ?case
    by (simp add: limitConn_Close_def sync_Once_Do_def split: prod.splits)
next
  case (Suc n)
  obtain err c' s' where step: "limitConn_Close N c s = (err, c', s')"
    by (cases "limitConn_Close N c s") auto
  have "Close_times N (Suc (Suc n)) c s = Close_times N (Suc n) c' s'"
    using step by simp
  then show ?case
    using Suc.IH [of c' s'] by simp
qed

lemma Close_times_once:
  "\<not> removeOnce c \<Longrightarrow> snd (Close_times N (Suc n) c s) = removeConn c s"
  by (auto simp: limitConn_Close_def sync_Once_Do_def Close_times_fired split: prod.splits)

lemma Accept_Inr:
  assumes "LimitListener_Accept N l = (Inr c, l')"
  shows "\<not> removeOnce c" and "removeConn c = LimitListener_removeConn"
    and "conns l' = conns l + 1"
  using assms
  by (auto simp: LimitListener_Accept_def LimitListener_addConn_def
           split: if_splits prod.splits sum.splits)

text \<open>
  C4. When \<^verbatim>\<open>Accept\<close> returns a connection, the counter has grown by exactly one. Any
  non-empty run of \<^verbatim>\<open>Close\<close> calls on that connection, started from whatever state the
  listener is in by then, applies \<^verbatim>\<open>removeConn\<close> to it exactly once (the counter drops
  by one and nothing else changes); every \<^verbatim>\<open>Close\<close> after such a run leaves the
  listener as it is. So closing the connection any number of times brings the counter
  back to its value before the accept.
\<close>

theorem accepted_conn_counted_once:
  assumes "LimitListener_Accept N l = (Inr c, l')"
  shows "conns l' = conns l + 1
       \<and> (\<forall>n s. snd (Close_times N (Suc n) c s) = LimitListener_removeConn s)
       \<and> (\<forall>n s. conns (snd (Close_times N (Suc n) c s)) = conns s - 1)
       \<and> (\<forall>n m s t. snd (Close_times N m (fst (Close_times N (Suc n) c s)) t) = t)
       \<and> (\<forall>n. conns (snd (Close_times N (Suc n) c l')) = conns l)"
proof -
  note acc = Accept_Inr [OF assms]
  have once: "snd (Close_times N (Suc n) c s) = LimitListener_removeConn s" for n s
    using Close_times_once [of c N n s] acc(1,2) by simp
  have later: "snd (Close_times N m (fst (Close_times N (Suc n) c s)) t) = t" for n m s t
    by (rule Close_times_fired) (rule Close_times_latches)
  have restored: "conns (snd (Close_times N (Suc n) c l')) = conns l" for n
    by (simp only: once) (simp add: LimitListener_removeConn_def acc(3))
  have dropped: "conns (snd (Close_times N (Suc n) c s)) = conns s - 1" for n s
    by (simp only: once) (simp add: LimitListener_removeConn_def)
  show ?thesis
    using acc(3) once dropped later restored by blast
qed

lemma testListener_accepts:
  "LimitListener_Accept testNet testListener =
     (Inr \<lparr>Conn = 0, removeOnce = False, removeConn = LimitListener_removeConn\<rparr>,
      testListener\<lparr>Listener := 1, conns := 1\<rparr>)"
  by (simp add: LimitListener_Accept_def testListener_def testNet_def IsDone_def
        LimitListener_ConnCount_def LimitListener_setKeepAlive_def LimitListener_addConn_def)

theorem accepted_conn_counted_once_witness:
  "LimitListener_Accept testNet testListener =
     (Inr \<lparr>Conn = 0, removeOnce = False, removeConn = LimitListener_removeConn\<rparr>,
      testListener\<lparr>Listener := 1, conns := 1\<rparr>)
   \<and> conns (testListener\<lparr>Listener := 1, conns := 1\<rparr>) = conns testListener + 1
   \<and> conns (snd (Close_times testNet (Suc 2)
        \<lparr>Conn = 0, removeOnce = False, removeConn = LimitListener_removeConn\<rparr>
        (testListener\<lparr>Listener := 1, conns := 1\<rparr>))) = conns testListener"
  using accepted_conn_counted_once [OF testListener_accepts] testListener_accepts
  by blast

text \<open>
  C5, as the code has it. \<^verbatim>\<open>Accept\<close> on a listener that has not been closed and whose
  count has reached \<^verbatim>\<open>MaxConns\<close> returns the temporary error \<^verbatim>\<open>Too many requests\<close>
  and leaves the listener, the wrapped listener included, untouched, whatever the wrapped
  listener's \<^verbatim>\<open>Accept\<close> would do. \<^verbatim>\<open>Accept\<close> on a closed listener returns the permanent
  error \<^verbatim>\<open>Listener closed\<close>, and a listener is closed after \<^verbatim>\<open>Close\<close>.
\<close>

theorem Accept_refuses:
  "(\<not> IsDone (closeOnce l) \<and> LimitListener_ConnCount l \<ge> MaxConns l \<longrightarrow>
      LimitListener_Accept N l = (Inl (Listener_error errTooBusy), l)
      \<and> Message errTooBusy = ''Too many requests'' \<and> Temporary errTooBusy)
   \<and> (IsDone (closeOnce l) \<longrightarrow>
      LimitListener_Accept N l = (Inl (Listener_error errClosed), l)
      \<and> Message errClosed = ''Listener closed'' \<and> \<not> Temporary errClosed)
   \<and> IsDone (closeOnce (snd (LimitListener_Close N l)))"
  by (simp add: LimitListener_Accept_def LimitListener_Close_def Once_Do_def IsDone_def
        errTooBusy_def errClosed_def Temporary_def split: prod.splits)

theorem Accept_refuses_witness:
  "\<not> IsDone (closeOnce fullListener)
   \<and> LimitListener_ConnCount fullListener \<ge> MaxConns fullListener
   \<and> LimitListener_Accept testNet fullListener = (Inl (Listener_error errTooBusy), fullListener)
   \<and> IsDone (closeOnce closedFullListener)
   \<and> LimitListener_Accept testNet closedFullListener =
       (Inl (Listener_error errClosed), closedFullListener)"
proof -
  have open_full: "\<not> IsDone (closeOnce fullListener)"
    and at_limit: "LimitListener_ConnCount fullListener \<ge> MaxConns fullListener"
    and closed: "IsDone (closeOnce closedFullListener)"
    by (simp_all add: fullListener_def closedFullListener_def testListener_def IsDone_def
          LimitListener_ConnCount_def)
  show ?thesis
    using Accept_refuses [of fullListener testNet] Accept_refuses [of closedFullListener testNet]
      open_full at_limit closed
    by blast
qed

text \<open>
  The claim as written fails on a closed listener that is also at its limit: the count
  is at \<^verbatim>\<open>MaxConns\<close>, and \<^verbatim>\<open>Accept\<close> does not return \<^verbatim>\<open>Too many requests\<close>.
\<close>

theorem Accept_busy_counterexample:
  "LimitListener_ConnCount closedFullListener \<ge> MaxConns closedFullListener
   \<and> fst (LimitListener_Accept testNet closedFullListener) \<noteq> Inl (Listener_error errTooBusy)"
  by (simp add: LimitListener_Accept_def closedFullListener_def testListener_def IsDone_def
        LimitListener_ConnCount_def errTooBusy_def errClosed_def)

text \<open>
  C9. On a closed listener whose count is at or above \<^verbatim>\<open>MaxConns\<close>, \<^verbatim>\<open>Accept\<close> returns
  \<^verbatim>\<open>Listener closed\<close>, which is not the too-busy error and is not temporary: the closed
  test comes first.
\<close>

theorem Accept_closed_before_busy:
  assumes "IsDone (closeOnce l)" and "LimitListener_ConnCount l \<ge> MaxConns l"
  shows "LimitListener_Accept N l = (Inl (Listener_error errClosed), l)
       \<and> errClosed \<noteq> errTooBusy \<and> \<not> Temporary errClosed"
  using assms
  by (simp add: LimitListener_Accept_def errTooBusy_def errClosed_def Temporary_def)

theorem Accept_closed_before_busy_witness:
  "IsDone (closeOnce closedFullListener)
   \<and> LimitListener_ConnCount closedFullListener \<ge> MaxConns closedFullListener
   \<and> LimitListener_Accept testNet closedFullListener =
       (Inl (Listener_error errClosed), closedFullListener)"
proof -
  have closed: "IsDone (closeOnce closedFullListener)"
    and at_limit: "LimitListener_ConnCount closedFullListener \<ge> MaxConns closedFullListener"
    by (simp_all add: closedFullListener_def testListener_def IsDone_def
          LimitListener_ConnCount_def)
  show ?thesis
    using Accept_closed_before_busy [OF closed at_limit, of testNet] closed at_limit
    by simp
qed

section \<open>The frame classifier\<close>

lemma countBraces_eq:
  "countBraces raw l r =
     (if \<exists>b \<in> set raw. b \<notin> {CHR ''{'', CHR ''}'', CHR 0x09, CHR 0x0D, CHR 0x0A, CHR '' ''}
      then None
      else Some (l + int (count_list raw CHR ''{''), r + int (count_list raw CHR ''}'')))"
  by (induction raw arbitrary: l r) auto

lemma two_bytes:
  "(length raw = 2 \<and> raw ! 0 = a \<and> raw ! 1 = b) = (raw = [a, b])"
  by (cases raw; cases "tl raw") auto

text \<open>
  C6. For every byte slice the classifier returns: ping and no error when the slice is
  shorter than two bytes or is exactly \<^verbatim>\<open>{}\<close>; otherwise not-ping and no error when
  some byte is not a brace, tab, CR, LF or space; otherwise ping and no error when there
  is at most one \<^verbatim>\<open>{\<close> and as many \<^verbatim>\<open>}\<close> as \<^verbatim>\<open>{\<close>; and not-ping with the bad payload
  error in every remaining case.
\<close>

theorem isPingBody_classifies:
  "isPingBody raw =
     (if length raw < 2 \<or> raw = ''{}'' then (True, None)
      else if \<exists>b \<in> set raw. b \<notin> {CHR ''{'', CHR ''}'', CHR 0x09, CHR 0x0D, CHR 0x0A, CHR '' ''}
        then (False, None)
      else if count_list raw CHR ''{'' \<le> 1 \<and> count_list raw CHR ''{'' = count_list raw CHR ''}''
        then (True, None)
      else (False, Some ErrBadPayload))"
proof (cases "length raw < 2 \<or> raw = ''{}''")
  case True
  then show ?thesis
    unfolding isPingBody_def two_bytes by auto
next
  case False
  then have slow: "isPingBody raw =
      (case countBraces raw 0 0 of
         None \<Rightarrow> (False, None)
       | Some (leftBraces, rightBraces) \<Rightarrow>
           if leftBraces \<le> 1 \<and> leftBraces = rightBraces then (True, None)
           else (False, Some ErrBadPayload))"
    unfolding isPingBody_def two_bytes by simp
  show ?thesis
  proof (cases "\<exists>b \<in> set raw.
      b \<notin> {CHR ''{'', CHR ''}'', CHR 0x09, CHR 0x0D, CHR 0x0A, CHR '' ''}")
    case True
    then have "countBraces raw 0 0 = None"
      by (simp only: countBraces_eq if_True)
    with False True show ?thesis
      by (simp only: slow option.case if_False if_True)
  next
    case clean: False
    then have "countBraces raw 0 0 =
        Some (int (count_list raw CHR ''{''), int (count_list raw CHR ''}''))"
      by (simp only: countBraces_eq if_False) simp
    with False clean show ?thesis
      by (simp only: slow option.case prod.case if_False) simp
  qed
qed

theorem isPingBody_classifies_witness:
  "isPingBody [CHR '' '', CHR ''{'', CHR 0x0A, CHR ''}''] = (True, None)
   \<and> isPingBody ''{{}}'' = (False, Some ErrBadPayload)
   \<and> isPingBody ''{x}'' = (False, None)"
  using isPingBody_classifies [of "[CHR '' '', CHR ''{'', CHR 0x0A, CHR ''}'']"]
    isPingBody_classifies [of "''{{}}''"] isPingBody_classifies [of "''{x}''"]
  by simp

section \<open>The worker: what the handlers leave alone\<close>

lemma Worker_Flush_state:
  "state (fst (snd (Worker_Flush D w sock lastAccessed channel version))) = state w"
  by (simp add: Worker_Flush_def Flush_body_def Flush_reply_def Let_def
        split: prod.splits option.splits)

lemma Worker_Flush_lastPing:
  "lastPing (fst (snd (Worker_Flush D w sock lastAccessed channel version))) = lastPing w"
  by (simp add: Worker_Flush_def Flush_body_def Flush_reply_def Let_def
        split: prod.splits option.splits)

lemma registerDevice_state:
  "state (fst (snd (registerDevice D w sock header request forceReset))) = WorkerActive"
  by (simp add: registerDevice_def Let_def Worker_Flush_state split: prod.splits)

lemma registerDevice_lastPing:
  "lastPing (fst (snd (registerDevice D w sock header request forceReset))) = lastPing w"
  by (simp add: registerDevice_def Let_def Worker_Flush_lastPing split: prod.splits)

lemma Worker_Hello_lastPing:
  "lastPing (fst (snd (Worker_Hello D w sock header message))) = lastPing w"
  by (simp add: Worker_Hello_def registerDevice_lastPing
        split: option.splits sum.splits prod.splits)

lemma Worker_Ack_frame:
  "lastPing (fst (snd (Worker_Ack D w sock header message))) = lastPing w
   \<and> state (fst (snd (Worker_Ack D w sock header message))) = state w"
  by (simp add: Worker_Ack_def Let_def Worker_Flush_lastPing Worker_Flush_state
        split: option.splits prod.splits)

lemma Worker_Register_frame:
  "fst (snd (Worker_Register D w sock header message)) = w"
  by (simp add: Worker_Register_def Let_def split: option.splits prod.splits)

lemma Worker_Unregister_frame:
  "fst (snd (Worker_Unregister D w sock header message)) = w"
  by (simp add: Worker_Unregister_def split: option.splits prod.splits)

lemma Worker_Purge_frame:
  "fst (snd (Worker_Purge D w sock header message)) = w"
  by (simp add: Worker_Purge_def split: prod.splits)

lemma Worker_Flush_pingInt:
  "pingInt (fst (snd (Worker_Flush D w sock lastAccessed channel version))) = pingInt w"
  by (simp add: Worker_Flush_def Flush_body_def Flush_reply_def Let_def
        split: prod.splits option.splits)

lemma registerDevice_pingInt:
  "pingInt (fst (snd (registerDevice D w sock header request forceReset))) = pingInt w"
  by (simp add: registerDevice_def Let_def Worker_Flush_pingInt split: prod.splits)

lemma Worker_Hello_pingInt:
  "pingInt (fst (snd (Worker_Hello D w sock header message))) = pingInt w"
  by (simp add: Worker_Hello_def registerDevice_pingInt
        split: option.splits sum.splits prod.splits)

lemma Worker_Ack_pingInt:
  "pingInt (fst (snd (Worker_Ack D w sock header message))) = pingInt w"
  by (simp add: Worker_Ack_def Let_def Worker_Flush_pingInt split: option.splits prod.splits)

lemma Worker_Ping_frame:
  assumes "Worker_Ping D now w sock header message = Returns (err, w', sock')"
  shows "state w' = state w" and "pingInt w' = pingInt w"
  using assms
  by (auto simp: Worker_Ping_def Let_def split: if_splits prod.splits)

text \<open>
  A duration that is not below a positive bound is positive, so its later time is after
  its earlier one; the saturation of \<^verbatim>\<open>Sub\<close> keeps the sign.
\<close>

lemma Time_Sub_elapsed:
  "0 < p \<Longrightarrow> \<not> Time_Sub now earlier < p \<Longrightarrow> earlier < now"
  by (auto simp: Time_Sub_def minDuration_def maxDuration_def split: if_splits)

lemma Worker_Ping_lastPing:
  assumes "Worker_Ping D now w sock header message = Returns (err, w', sock')"
    and "0 < pingInt w" and "0 \<le> now"
  shows "lastPing w \<le> lastPing w'"
proof (cases "lastPing w \<noteq> 0 \<and> Time_Sub now (lastPing w) < pingInt w")
  case True
  with assms(1,2) have "w' = w\<lparr>stopped := True\<rparr>"
    by (auto simp: Worker_Ping_def Time_IsZero_def split: if_splits)
  then show ?thesis by simp
next
  case False
  with assms(1) have moved: "lastPing w' = now"
    by (auto simp: Worker_Ping_def Time_IsZero_def Let_def split: prod.splits)
  show ?thesis
  proof (cases "lastPing w = 0")
    case True
    with moved assms(3) show ?thesis by simp
  next
    case False
    with \<open>\<not> (lastPing w \<noteq> 0 \<and> Time_Sub now (lastPing w) < pingInt w)\<close>
    have "\<not> Time_Sub now (lastPing w) < pingInt w" by simp
    then have "lastPing w < now"
      using Time_Sub_elapsed [OF assms(2)] by blast
    with moved show ?thesis by simp
  qed
qed

text \<open>
  When the warning of the rate-limited branch is built for a socket without an origin,
  \<^verbatim>\<open>Ping\<close> panics: it neither returns the error nor sets the stopped flag.
\<close>

lemma Ping_panics_without_origin:
  assumes "pingInt w > 0" and "lastPing w \<noteq> 0" and "Time_Sub now (lastPing w) < pingInt w"
    and "ShouldLog D WARNING" and "Socket_Origin D (world sock) = None"
  shows "Worker_Ping D now w sock header message = Panics"
  using assms by (simp add: Worker_Ping_def Time_IsZero_def)

text \<open>
  No command but \<^verbatim>\<open>hello\<close> changes the state of the worker, and a \<^verbatim>\<open>hello\<close> that
  reaches \<open>registerDevice\<close> leaves it \<^verbatim>\<open>WorkerActive\<close>, whether or not the reply could
  be written.
\<close>

lemma state_changes_only_in_hello:
  assumes "lowered \<noteq> ''hello''"
    and "sniffer_switch D now lowered w sock header raw = Returns (err, w', sock')"
  shows "state w' = state w"
proof (cases "lowered = ''ping''")
  case True
  with assms(2) show ?thesis
    by (simp add: sniffer_switch_def Worker_Ping_frame(1))
next
  case False
  with assms have "w' = fst (snd (Worker_Ack D w sock header raw))
      \<or> w' = fst (snd (Worker_Register D w sock header raw))
      \<or> w' = fst (snd (Worker_Unregister D w sock header raw))
      \<or> w' = fst (snd (Worker_Purge D w sock header raw)) \<or> w' = w"
    by (auto simp: sniffer_switch_def split: if_splits)
  then show ?thesis
    by (auto simp: Worker_Ack_frame Worker_Register_frame Worker_Unregister_frame
          Worker_Purge_frame)
qed

text \<open>
  With a positive \<^verbatim>\<open>pingInt\<close> and a clock reading that is not before the zero time,
  no dispatched command lowers \<^verbatim>\<open>lastPing\<close>, and none changes \<^verbatim>\<open>pingInt\<close>.
\<close>

lemma lastPing_monotone:
  assumes "sniffer_switch D now lowered w sock header raw = Returns (err, w', sock')"
    and "0 < pingInt w" and "0 \<le> now"
  shows "lastPing w \<le> lastPing w' \<and> pingInt w' = pingInt w"
proof (cases "lowered = ''ping''")
  case True
  with assms(1) have ping: "Worker_Ping D now w sock header raw = Returns (err, w', sock')"
    by (simp add: sniffer_switch_def)
  show ?thesis
    using Worker_Ping_lastPing [OF ping assms(2,3)] Worker_Ping_frame(2) [OF ping] by simp
next
  case False
  with assms(1) have "w' = fst (snd (Worker_Hello D w sock header raw))
      \<or> w' = fst (snd (Worker_Ack D w sock header raw))
      \<or> w' = fst (snd (Worker_Register D w sock header raw))
      \<or> w' = fst (snd (Worker_Unregister D w sock header raw))
      \<or> w' = fst (snd (Worker_Purge D w sock header raw)) \<or> w' = w"
    by (auto simp: sniffer_switch_def split: if_splits)
  then show ?thesis
    by (auto simp: Worker_Hello_lastPing Worker_Hello_pingInt Worker_Ack_frame
          Worker_Ack_pingInt Worker_Register_frame Worker_Unregister_frame Worker_Purge_frame)
qed

lemma Worker_Flush_Uaid:
  "Uaid (snd (snd (Worker_Flush D w sock lastAccessed channel version))) = Uaid sock"
  by (auto simp: Worker_Flush_def Flush_body_def Flush_reply_def call_FetchAll_def send_def
        emit_def Let_def split: prod.splits option.splits)

lemma registerDevice_reset_Uaid:
  "Uaid (snd (snd (registerDevice D w sock header request True)))
     = fst (fst (id_Generate D (world sock)))"
  by (auto simp: registerDevice_def call_Generate_def call_HandleCommand_def send_def emit_def
        Worker_Flush_Uaid Let_def split: prod.splits)

section \<open>The worker: creation and state\<close>

text \<open>
  C3, evaluated on the code. \<^verbatim>\<open>NewWorker\<close> builds the worker with the state
  \<^verbatim>\<open>WorkerActive\<close>, for every application and request id: a new worker is never in the
  state \<^verbatim>\<open>WorkerInactive\<close>.
\<close>

theorem NewWorker_starts_active:
  "state (NewWorker a ident) = WorkerActive \<and> state (NewWorker a ident) \<noteq> WorkerInactive"
  by (simp add: NewWorker_def)

section \<open>The worker: commands before hello\<close>

text \<open>
  C2, as the code has it. On a connection whose device id is empty, \<^verbatim>\<open>register\<close>,
  \<^verbatim>\<open>unregister\<close> and \<^verbatim>\<open>ack\<close> return the invalid command error and leave the worker and
  the connection as they were: nothing is sent and no collaborator is called. \<^verbatim>\<open>purge\<close>
  has no such guard: with or without a device id it hands \<^verbatim>\<open>{}\<close> to the socket and
  returns no error.
\<close>

theorem commands_before_hello:
  "(Uaid sock = '''' \<longrightarrow>
      (\<forall>lowered \<in> {''register'', ''unregister'', ''ack''}.
         sniffer_switch D now lowered w sock header raw
           = Returns (Some ErrInvalidCommand, w, sock)))
   \<and> (case sniffer_switch D now ''purge'' w sock header raw of
        Panics \<Rightarrow> False
      | Returns (err, w', sock') \<Rightarrow>
          err = None \<and> w' = w \<and> Uaid sock' = Uaid sock
          \<and> events sock' = events sock @ [Sent (Message_Send ''{}'')])"
  by (simp add: sniffer_switch_def Worker_Register_def Worker_Unregister_def Worker_Ack_def
        Worker_Purge_def send_def emit_def split: prod.splits)

theorem commands_before_hello_witness:
  "Uaid freshSock = ''''
   \<and> sniffer_switch testDeps 0 ''register'' (NewWorker testApp ''r1'') freshSock
        (testHeader ''register'') ''m''
       = Returns (Some ErrInvalidCommand, NewWorker testApp ''r1'', freshSock)
   \<and> sniffer_switch testDeps 0 ''ack'' (NewWorker testApp ''r1'') freshSock
        (testHeader ''ack'') ''m''
       = Returns (Some ErrInvalidCommand, NewWorker testApp ''r1'', freshSock)"
proof -
  have unbound: "Uaid freshSock = ''''"
    by (simp add: freshSock_def)
  show ?thesis
    using commands_before_hello [where sock = freshSock and D = testDeps and now = 0
        and w = "NewWorker testApp ''r1''" and header = "testHeader ''register''"
        and raw = "''m''"]
      commands_before_hello [where sock = freshSock and D = testDeps and now = 0
        and w = "NewWorker testApp ''r1''" and header = "testHeader ''ack''"
        and raw = "''m''"] unbound
    by simp
qed

text \<open>
  The claim as written fails for \<^verbatim>\<open>purge\<close>: on a connection with an empty device id it
  returns no error and sends \<^verbatim>\<open>{}\<close>.
\<close>

theorem purge_before_hello_counterexample:
  "Uaid freshSock = ''''
   \<and> sniffer_switch testDeps 0 ''purge'' (NewWorker testApp ''r1'') freshSock
        (testHeader ''purge'') ''m''
       = Returns (None, NewWorker testApp ''r1'',
                  freshSock\<lparr>events := [Sent (Message_Send ''{}'')]\<rparr>)"
  by (simp add: sniffer_switch_def Worker_Purge_def send_def emit_def freshSock_def testDeps_def)

section \<open>The worker: ping\<close>

text \<open>
  C7, as the code has it. Write \<open>limited\<close> for: \<^verbatim>\<open>pingInt\<close> is positive, \<^verbatim>\<open>lastPing\<close> is
  not the zero time and the time since \<^verbatim>\<open>lastPing\<close> is below \<^verbatim>\<open>pingInt\<close>.
  \<^item> When \<open>limited\<close> holds and the warning can be built (the logger drops warnings, or
    the socket has an origin), \<^verbatim>\<open>Ping\<close> returns the too-many-pings error, sets the
    stopped flag, changes nothing else of the worker and sends nothing.
  \<^item> When \<open>limited\<close> does not hold, \<^verbatim>\<open>Ping\<close> returns no error, sets \<^verbatim>\<open>lastPing\<close> to
    the clock reading, changes nothing else of the worker and sends one frame: the long
    pong \<^verbatim>\<open>PingReply{header.Type, 200}\<close> when \<^verbatim>\<open>pushLongPongs\<close> is set, whose message
    type is the request's as it was sent, and the bytes \<^verbatim>\<open>{}\<close> otherwise.
  \<^item> Whenever \<^verbatim>\<open>Ping\<close> returns, it has returned the too-many-pings error with the
    stopped flag set if and only if \<open>limited\<close> holds.
  \<^item> With a positive \<^verbatim>\<open>pingInt\<close> and a clock reading that is not before the zero time,
    \<^verbatim>\<open>lastPing\<close> does not decrease, whatever the clock reading is compared with the
    last ping: not in \<^verbatim>\<open>Ping\<close>, and not in any command the worker dispatches, none of
    which changes \<^verbatim>\<open>pingInt\<close>.
  \<^item> For a \<^verbatim>\<open>pingInt\<close> in the range of a duration the saturation of \<^verbatim>\<open>Sub\<close> does not
    show: the time since \<^verbatim>\<open>lastPing\<close> is the plain difference.
\<close>

theorem Ping_rate_limit:
  "(pingInt w > 0 \<and> lastPing w \<noteq> 0 \<and> Time_Sub now (lastPing w) < pingInt w
      \<and> \<not> (ShouldLog D WARNING \<and> Socket_Origin D (world sock) = None) \<longrightarrow>
      Worker_Ping D now w sock header message =
        Returns (Some ErrTooManyPings, w\<lparr>stopped := True\<rparr>,
                 sock\<lparr>events := events sock @
                        [MetricIncrement ''updates.client.too_many_pings'']\<rparr>))
   \<and> (\<not> (pingInt w > 0 \<and> lastPing w \<noteq> 0 \<and> Time_Sub now (lastPing w) < pingInt w) \<longrightarrow>
      Worker_Ping D now w sock header message =
        Returns (None, w\<lparr>lastPing := now\<rparr>,
                 sock\<lparr>world := snd (Socket_send D (world sock)
                                    (if pushLongPongs (app w)
                                     then JSON_Send (PingReply (Type header) 200)
                                     else Message_Send ''{}'')),
                      events := events sock @
                        [Sent (if pushLongPongs (app w)
                               then JSON_Send (PingReply (Type header) 200)
                               else Message_Send ''{}''),
                         MetricIncrement ''updates.client.ping'']\<rparr>))
   \<and> (\<forall>err w' sock'.
        Worker_Ping D now w sock header message = Returns (err, w', sock') \<longrightarrow>
          ((err = Some ErrTooManyPings \<and> stopped w') =
             (pingInt w > 0 \<and> lastPing w \<noteq> 0 \<and> Time_Sub now (lastPing w) < pingInt w))
          \<and> (pingInt w > 0 \<and> 0 \<le> now \<longrightarrow> lastPing w \<le> lastPing w'))
   \<and> (\<forall>err w' sock'.
        sniffer_switch D now lowered w sock header message = Returns (err, w', sock')
        \<and> pingInt w > 0 \<and> 0 \<le> now \<longrightarrow>
          lastPing w \<le> lastPing w' \<and> pingInt w' = pingInt w)
   \<and> (0 < pingInt w \<and> pingInt w \<le> maxDuration \<longrightarrow>
        (Time_Sub now (lastPing w) < pingInt w) = (now - lastPing w < pingInt w))"
proof -
  have limited: "Worker_Ping D now w sock header message =
      Returns (Some ErrTooManyPings, w\<lparr>stopped := True\<rparr>,
               sock\<lparr>events := events sock @
                      [MetricIncrement ''updates.client.too_many_pings'']\<rparr>)"
    if "pingInt w > 0 \<and> lastPing w \<noteq> 0 \<and> Time_Sub now (lastPing w) < pingInt w"
      and "\<not> (ShouldLog D WARNING \<and> Socket_Origin D (world sock) = None)"
    using that by (simp add: Worker_Ping_def Time_IsZero_def emit_def)
  have answered: "Worker_Ping D now w sock header message =
      Returns (None, w\<lparr>lastPing := now\<rparr>,
               sock\<lparr>world := snd (Socket_send D (world sock)
                                  (if pushLongPongs (app w)
                                   then JSON_Send (PingReply (Type header) 200)
                                   else Message_Send ''{}'')),
                    events := events sock @
                      [Sent (if pushLongPongs (app w)
                             then JSON_Send (PingReply (Type header) 200)
                             else Message_Send ''{}''),
                       MetricIncrement ''updates.client.ping'']\<rparr>)"
    if "\<not> (pingInt w > 0 \<and> lastPing w \<noteq> 0 \<and> Time_Sub now (lastPing w) < pingInt w)"
    using that
    by (simp add: Worker_Ping_def Time_IsZero_def send_def emit_def Let_def split: prod.splits)
  have iff: "(err = Some ErrTooManyPings \<and> stopped w') =
      (pingInt w > 0 \<and> lastPing w \<noteq> 0 \<and> Time_Sub now (lastPing w) < pingInt w)"
    if "Worker_Ping D now w sock header message = Returns (err, w', sock')" for err w' sock'
    using that
    by (auto simp: Worker_Ping_def Time_IsZero_def Let_def split: if_splits prod.splits)
  have mono: "lastPing w \<le> lastPing w'"
    if "Worker_Ping D now w sock header message = Returns (err, w', sock')"
      and "pingInt w > 0" and "0 \<le> now" for err w' sock'
    using Worker_Ping_lastPing [OF that] .
  have life: "lastPing w \<le> lastPing w' \<and> pingInt w' = pingInt w"
    if "sniffer_switch D now lowered w sock header message = Returns (err, w', sock')"
      and "pingInt w > 0" and "0 \<le> now" for err w' sock'
    using lastPing_monotone [OF that] .
  have plain: "(Time_Sub now (lastPing w) < pingInt w) = (now - lastPing w < pingInt w)"
    if "0 < pingInt w" and "pingInt w \<le> maxDuration"
    using that by (auto simp: Time_Sub_def minDuration_def maxDuration_def)
  show ?thesis
    using limited answered iff mono life plain by blast
qed

theorem Ping_rate_limit_witness:
  "Worker_Ping testDeps 1000000005 pingedWorker boundSock (testHeader ''ping'') ''{}''
     = Returns (Some ErrTooManyPings, pingedWorker\<lparr>stopped := True\<rparr>,
                boundSock\<lparr>events := events boundSock @
                            [MetricIncrement ''updates.client.too_many_pings'']\<rparr>)
   \<and> Worker_Ping testDeps 1000000005 longPongWorker boundSock (testHeader ''ping'') ''{}''
     = Returns (None, longPongWorker\<lparr>lastPing := 1000000005\<rparr>,
                boundSock\<lparr>world := world boundSock,
                          events := events boundSock @
                            [Sent (JSON_Send (PingReply ''ping'' 200)),
                             MetricIncrement ''updates.client.ping'']\<rparr>)
   \<and> lastPing longPongWorker \<le> lastPing (longPongWorker\<lparr>lastPing := 1000000005\<rparr>)"
proof -
  have limited: "pingInt pingedWorker > 0 \<and> lastPing pingedWorker \<noteq> 0
      \<and> Time_Sub 1000000005 (lastPing pingedWorker) < pingInt pingedWorker
      \<and> \<not> (ShouldLog testDeps WARNING \<and> Socket_Origin testDeps (world boundSock) = None)"
    by (simp add: pingedWorker_def NewWorker_def testApp_def testDeps_def Time_Sub_def
          minDuration_def maxDuration_def)
  have first: "Worker_Ping testDeps 1000000005 pingedWorker boundSock (testHeader ''ping'') ''{}''
     = Returns (Some ErrTooManyPings, pingedWorker\<lparr>stopped := True\<rparr>,
                boundSock\<lparr>events := events boundSock @
                            [MetricIncrement ''updates.client.too_many_pings'']\<rparr>)"
    using Ping_rate_limit [where D = testDeps and now = 1000000005 and w = pingedWorker
        and sock = boundSock and header = "testHeader ''ping''" and message = "''{}''"]
      limited
    by blast
  have fresh: "\<not> (pingInt longPongWorker > 0 \<and> lastPing longPongWorker \<noteq> 0
      \<and> Time_Sub 1000000005 (lastPing longPongWorker) < pingInt longPongWorker)"
    and long: "pushLongPongs (app longPongWorker)"
    and rate: "pingInt longPongWorker > 0"
    by (simp_all add: longPongWorker_def NewWorker_def testApp_def)
  have sent: "snd (Socket_send testDeps (world boundSock) f) = world boundSock" for f
    by (simp add: testDeps_def)
  have typed: "Type (testHeader ''ping'') = ''ping''"
    by (simp add: testHeader_def)
  note inst = Ping_rate_limit [where D = testDeps and now = 1000000005 and w = longPongWorker
      and sock = boundSock and header = "testHeader ''ping''" and message = "''{}''"]
  have second: "Worker_Ping testDeps 1000000005 longPongWorker boundSock (testHeader ''ping'') ''{}''
     = Returns (None, longPongWorker\<lparr>lastPing := 1000000005\<rparr>,
                boundSock\<lparr>world := world boundSock,
                          events := events boundSock @
                            [Sent (JSON_Send (PingReply ''ping'' 200)),
                             MetricIncrement ''updates.client.ping'']\<rparr>)"
    using inst [THEN conjunct2, THEN conjunct1] fresh long
    by (simp add: sent typed)
  have third: "lastPing longPongWorker \<le> lastPing (longPongWorker\<lparr>lastPing := 1000000005\<rparr>)"
    using inst [THEN conjunct2, THEN conjunct2, THEN conjunct1] second rate
    by simp
  show ?thesis
    using first second third by simp
qed

text \<open>
  The claim as written fails in two places. A ping sent as \<^verbatim>\<open>{"messageType":"PING"}\<close> to
  a server that sends long pongs is dispatched to \<^verbatim>\<open>Ping\<close> and answered with the message
  type \<^verbatim>\<open>PING\<close>, not \<^verbatim>\<open>ping\<close>. And on a worker without a rate limit (\<^verbatim>\<open>pingInt\<close> is 0)
  whose last ping was at 10 ns, a ping at the clock reading 5 ns moves \<^verbatim>\<open>lastPing\<close>
  back to 5.
\<close>

theorem Ping_claim_counterexample:
  "sniffer_switch testDeps 5 ''ping'' longPongWorker boundSock (testHeader ''PING'')
       (''{'' @ quoted ''messageType'' @ '':'' @ quoted ''PING'' @ ''}'')
     = Returns (None, longPongWorker\<lparr>lastPing := 5\<rparr>,
                boundSock\<lparr>events := [Sent (JSON_Send (PingReply ''PING'' 200)),
                                     MetricIncrement ''updates.client.ping'']\<rparr>)
   \<and> PingReply ''PING'' 200 \<noteq> PingReply ''ping'' 200
   \<and> pingInt unlimitedWorker = 0 \<and> lastPing unlimitedWorker = 10
   \<and> Worker_Ping testDeps 5 unlimitedWorker boundSock (testHeader ''ping'') ''{}''
     = Returns (None, unlimitedWorker\<lparr>lastPing := 5\<rparr>,
                boundSock\<lparr>events := [Sent (Message_Send ''{}''),
                                     MetricIncrement ''updates.client.ping'']\<rparr>)
   \<and> lastPing (unlimitedWorker\<lparr>lastPing := 5\<rparr>) < lastPing unlimitedWorker"
  by (simp add: sniffer_switch_def Worker_Ping_def Time_IsZero_def send_def emit_def
        longPongWorker_def unlimitedWorker_def NewWorker_def testApp_def testDeps_def
        boundSock_def testHeader_def)

section \<open>The worker: unregister\<close>

text \<open>
  C8. On a connection with a device id, for a message that decodes to a request with a
  non-empty channel id, \<^verbatim>\<open>Unregister\<close> calls the store once, then sends
  \<^verbatim>\<open>UnregisterReply{header.Type, 200, channelID}\<close> and returns no error, whatever the
  store answered (the collaborators are arbitrary, so the store may fail and the channel
  may never have been registered).
\<close>

theorem Unregister_always_200:
  assumes "Uaid sock \<noteq> ''''"
    and "Unmarshal_Unregister D message = Some request"
    and "Unregister_ChannelID request \<noteq> ''''"
  shows "case Worker_Unregister D w sock header message of
           (err, w', sock') \<Rightarrow>
             err = None \<and> w' = w \<and> Uaid sock' = Uaid sock
             \<and> events sock' = events sock @
                  [StoreUnregister (Uaid sock) (Unregister_ChannelID request),
                   Sent (JSON_Send (UnregisterReply (Type header) 200 (Unregister_ChannelID request))),
                   MetricIncrement ''updates.client.unregister'']"
  using assms
  by (simp add: Worker_Unregister_def call_Unregister_def send_def emit_def split: prod.splits)

theorem Unregister_always_200_witness:
  "Uaid boundSock \<noteq> ''''
   \<and> Unmarshal_Unregister testDeps ''m'' = Some (UnregisterRequest ''chan1'')
   \<and> fst (Store_Unregister testDeps (world boundSock) testUaid ''chan1'') = Some (ErrOther ''no such channel'')
   \<and> fst (Worker_Unregister testDeps (NewWorker testApp ''r1'') boundSock
        (testHeader ''unregister'') ''m'') = None
   \<and> events (snd (snd (Worker_Unregister testDeps (NewWorker testApp ''r1'') boundSock
        (testHeader ''unregister'') ''m'')))
       = [StoreUnregister testUaid ''chan1'',
          Sent (JSON_Send (UnregisterReply ''unregister'' 200 ''chan1'')),
          MetricIncrement ''updates.client.unregister'']"
proof -
  have bound: "Uaid boundSock \<noteq> ''''"
    by (simp add: boundSock_def testUaid_def)
  have decoded: "Unmarshal_Unregister testDeps ''m'' = Some (UnregisterRequest ''chan1'')"
    by (simp add: testDeps_def)
  have named: "Unregister_ChannelID (UnregisterRequest ''chan1'') \<noteq> ''''"
    by simp
  have refused: "fst (Store_Unregister testDeps (world boundSock) testUaid ''chan1'')
      = Some (ErrOther ''no such channel'')"
    by (simp add: testDeps_def)
  show ?thesis
    using Unregister_always_200 [OF bound decoded named, of "NewWorker testApp ''r1''"
        "testHeader ''unregister''"] bound decoded refused
    by (cases "Worker_Unregister testDeps (NewWorker testApp ''r1'') boundSock
          (testHeader ''unregister'') ''m''")
       (simp add: boundSock_def testHeader_def)
qed

section \<open>The worker: hello\<close>

text \<open>
  What the last test before \<open>registerDevice\<close> computes: on a connection without a device
  id, for a suggested id that is not empty, is well formed and collides with no client,
  and a channel list within \<^verbatim>\<open>maxChannels\<close>, the reset is forced exactly when the store
  does not know the \<^emph>\<open>connection's\<close> id, which is the empty string here, and the channel
  list is not empty. The store is never asked about the suggested id.
\<close>

lemma Hello_decide_asks_about_sock_Uaid:
  assumes "Uaid sock = ''''" and "suggestedUAID \<noteq> ''''" and "id_Valid D suggestedUAID"
    and "\<not> ClientExists D (world sock) suggestedUAID"
    and "int (length chids) \<le> maxChannels w"
  shows "Hello_decide D w sock suggestedUAID chids =
           (if \<not> Store_Exists D (world sock) '''' \<and> chids \<noteq> []
            then Inr (True, sock\<lparr>events := events sock @
                                  [ClientExistsCall suggestedUAID, StoreExists '''']\<rparr>)
            else Inr (False, sock\<lparr>Uaid := suggestedUAID,
                                  events := events sock @
                                  [ClientExistsCall suggestedUAID, StoreExists '''']\<rparr>))"
  using assms
  by (simp add: Hello_decide_def call_ClientExists_def call_Exists_def emit_def)

text \<open>
  C1, evaluated on the code. The connection has no device id; the suggested id is not
  empty, is well formed, collides with no client and is known to the store; one channel
  id is sent, within \<^verbatim>\<open>maxChannels\<close>. The store is asked about the empty string, the
  reset is forced, and the hello ends with the generated id bound instead of the
  suggested one.
\<close>

theorem Hello_resets_known_uaid:
  "Uaid freshSock = '''' \<and> testUaid \<noteq> '''' \<and> id_Valid testDeps testUaid
   \<and> \<not> ClientExists testDeps (world freshSock) testUaid
   \<and> int (length [JStr ''chan1'']) \<le> maxChannels (NewWorker testApp ''r1'')
   \<and> Store_Exists testDeps (world freshSock) testUaid
   \<and> Hello_decide testDeps (NewWorker testApp ''r1'') freshSock testUaid [JStr ''chan1'']
       = Inr (True, freshSock\<lparr>events := [ClientExistsCall testUaid, StoreExists '''']\<rparr>)
   \<and> Uaid (snd (snd (Worker_Hello testDeps (NewWorker testApp ''r1'') freshSock
        (testHeader ''hello'') ''m''))) = ''0123456789abcdef0123456789abcdef''"
proof -
  have setting: "Uaid freshSock = ''''" "testUaid \<noteq> ''''" "id_Valid testDeps testUaid"
    "\<not> ClientExists testDeps (world freshSock) testUaid"
    "int (length [JStr ''chan1'']) \<le> maxChannels (NewWorker testApp ''r1'')"
    "Store_Exists testDeps (world freshSock) testUaid"
    by (simp_all add: freshSock_def testUaid_def testDeps_def NewWorker_def testApp_def)
  have unknown: "\<not> Store_Exists testDeps (world freshSock) ''''"
    by (simp add: freshSock_def testUaid_def testDeps_def)
  have decide: "Hello_decide testDeps (NewWorker testApp ''r1'') freshSock testUaid [JStr ''chan1'']
       = Inr (True, freshSock\<lparr>events := [ClientExistsCall testUaid, StoreExists '''']\<rparr>)"
    using Hello_decide_asks_about_sock_Uaid [OF setting(1-5)] unknown
    by (simp add: freshSock_def)
  have decoded: "Unmarshal_Hello testDeps ''m'' = Some testHello"
    by (simp add: testDeps_def)
  have bound: "Uaid (snd (snd (registerDevice testDeps w' s h testHello True)))
      = ''0123456789abcdef0123456789abcdef''" for w' s h
    using registerDevice_reset_Uaid [of testDeps w' s h testHello]
    by (simp add: testDeps_def)
  have hello: "Uaid (snd (snd (Worker_Hello testDeps (NewWorker testApp ''r1'') freshSock
        (testHeader ''hello'') ''m''))) = ''0123456789abcdef0123456789abcdef''"
    by (simp add: Worker_Hello_def decoded testHello_def decide bound [unfolded testHello_def])
  show ?thesis
    using setting decide hello by simp
qed

text \<open>
  C10. A hello that reaches \<open>registerDevice\<close> with a forced reset, and whose identifier
  generator returns an error together with a (possibly empty) string \<open>g\<close>: the
  connection's device id becomes \<open>g\<close>; the router gets the \<^verbatim>\<open>HELLO\<close> command with
  \<open>g\<close> as \<^verbatim>\<open>uaid\<close>; the reply written to the socket carries \<open>g\<close>; the worker's state
  is \<^verbatim>\<open>WorkerActive\<close>; and when the write succeeds the handler's result is that of the
  flush with a zero cursor (which, for an empty \<open>g\<close>, sets the stopped flag and returns
  no error). The generator's error appears nowhere in the result.
\<close>

theorem Hello_reset_drops_generator_error:
  assumes "Unmarshal_Hello D message = Some request"
    and "DeviceID request = Some suggestedUAID"
    and "ChannelIDs request = Some chids"
    and "Hello_decide D w sock suggestedUAID chids = Inr (True, sock1)"
    and "id_Generate D (world sock1) = ((g, Some generr), e1)"
    and "HandleCommand D e1
           \<lparr>Command = HELLO,
            Arguments = [(''uaid'', JStr g), (''chids'', JArr chids),
                         (''connect'', JStr (PingData request))]\<rparr> = ((status, args), e2)"
    and "Socket_send D e2 (Socket_Write (Sprintf_hello (Type header) status g)) = (werr, e3)"
  shows "Worker_Hello D w sock header message =
           (if werr = None
            then Worker_Flush D (w\<lparr>state := WorkerActive\<rparr>)
                   (sock1\<lparr>Uaid := g, world := e3,
                          events := events sock1 @
                            [GenerateCall,
                             RouterCommand
                               \<lparr>Command = HELLO,
                                Arguments = [(''uaid'', JStr g), (''chids'', JArr chids),
                                             (''connect'', JStr (PingData request))]\<rparr>,
                             Sent (Socket_Write (Sprintf_hello (Type header) status g)),
                             MetricIncrement ''updates.client.hello'']\<rparr>) 0 '''' 0
            else (werr, w\<lparr>state := WorkerActive\<rparr>,
                  sock1\<lparr>Uaid := g, world := e3,
                         events := events sock1 @
                           [GenerateCall,
                            RouterCommand
                              \<lparr>Command = HELLO,
                               Arguments = [(''uaid'', JStr g), (''chids'', JArr chids),
                                            (''connect'', JStr (PingData request))]\<rparr>,
                            Sent (Socket_Write (Sprintf_hello (Type header) status g)),
                            MetricIncrement ''updates.client.hello'']\<rparr>))
       \<and> state (fst (snd (Worker_Hello D w sock header message))) = WorkerActive
       \<and> (werr = None \<and> g = '''' \<longrightarrow>
            fst (Worker_Hello D w sock header message) = None
            \<and> stopped (fst (snd (Worker_Hello D w sock header message))))"
proof -
  have reg: "Worker_Hello D w sock header message = registerDevice D w sock1 header request True"
    using assms(1-4) by (simp add: Worker_Hello_def)
  have run: "registerDevice D w sock1 header request True =
      (if werr = None
       then Worker_Flush D (w\<lparr>state := WorkerActive\<rparr>)
              (sock1\<lparr>Uaid := g, world := e3,
                     events := events sock1 @
                       [GenerateCall,
                        RouterCommand
                          \<lparr>Command = HELLO,
                           Arguments = [(''uaid'', JStr g), (''chids'', JArr chids),
                                        (''connect'', JStr (PingData request))]\<rparr>,
                        Sent (Socket_Write (Sprintf_hello (Type header) status g)),
                        MetricIncrement ''updates.client.hello'']\<rparr>) 0 '''' 0
       else (werr, w\<lparr>state := WorkerActive\<rparr>,
             sock1\<lparr>Uaid := g, world := e3,
                    events := events sock1 @
                      [GenerateCall,
                       RouterCommand
                         \<lparr>Command = HELLO,
                          Arguments = [(''uaid'', JStr g), (''chids'', JArr chids),
                                       (''connect'', JStr (PingData request))]\<rparr>,
                       Sent (Socket_Write (Sprintf_hello (Type header) status g)),
                       MetricIncrement ''updates.client.hello'']\<rparr>))"
    using assms(3,5,6,7)
    by (simp add: registerDevice_def call_Generate_def call_HandleCommand_def send_def emit_def
          Let_def)
  have active: "state (fst (snd (Worker_Hello D w sock header message))) = WorkerActive"
    by (simp only: reg registerDevice_state)
  have empty: "fst (Worker_Flush D w' s 0 '''' 0) = None
      \<and> stopped (fst (snd (Worker_Flush D w' s 0 '''' 0)))" if "Uaid s = ''''" for w' s
    using that by (simp add: Worker_Flush_def Flush_body_def)
  show ?thesis
    using run active empty by (simp add: reg)
qed

theorem Hello_reset_drops_generator_error_witness:
  "id_Generate failingGenerator (world freshSock) = (('''', Some (ErrOther ''no entropy'')), world freshSock)
   \<and> Hello_decide failingGenerator (NewWorker testApp ''r1'') freshSock testUaid [JStr ''chan1'']
       = Inr (True, freshSock\<lparr>events := [ClientExistsCall testUaid, StoreExists '''']\<rparr>)
   \<and> fst (Worker_Hello failingGenerator (NewWorker testApp ''r1'') freshSock
        (testHeader ''hello'') ''m'') = None
   \<and> state (fst (snd (Worker_Hello failingGenerator (NewWorker testApp ''r1'') freshSock
        (testHeader ''hello'') ''m''))) = WorkerActive
   \<and> stopped (fst (snd (Worker_Hello failingGenerator (NewWorker testApp ''r1'') freshSock
        (testHeader ''hello'') ''m'')))"
proof -
  have decoded: "Unmarshal_Hello failingGenerator ''m'' = Some testHello"
    by (simp add: failingGenerator_def testDeps_def)
  have uaid: "DeviceID testHello = Some testUaid"
    and chids: "ChannelIDs testHello = Some [JStr ''chan1'']"
    by (simp_all add: testHello_def)
  have decide: "Hello_decide failingGenerator (NewWorker testApp ''r1'') freshSock testUaid
        [JStr ''chan1'']
       = Inr (True, freshSock\<lparr>events := [ClientExistsCall testUaid, StoreExists '''']\<rparr>)"
    by (simp add: Hello_decide_def call_ClientExists_def call_Exists_def emit_def
          failingGenerator_def testDeps_def freshSock_def testUaid_def NewWorker_def testApp_def)
  have gen: "id_Generate failingGenerator
        (world (freshSock\<lparr>events := [ClientExistsCall testUaid, StoreExists '''']\<rparr>))
      = (('''', Some (ErrOther ''no entropy'')), [testUaid])"
    by (simp add: failingGenerator_def freshSock_def)
  have gen0: "id_Generate failingGenerator (world freshSock)
      = (('''', Some (ErrOther ''no entropy'')), world freshSock)"
    by (simp add: failingGenerator_def)
  have router: "HandleCommand failingGenerator [testUaid]
        \<lparr>Command = HELLO,
         Arguments = [(''uaid'', JStr ''''), (''chids'', JArr [JStr ''chan1'']),
                      (''connect'', JStr (PingData testHello))]\<rparr>
      = ((200, [(''push.endpoint'', JStr ''http://push/1'')]), [testUaid])"
    by (simp add: failingGenerator_def testDeps_def)
  have written: "Socket_send failingGenerator [testUaid]
        (Socket_Write (Sprintf_hello (Type (testHeader ''hello'')) 200 '''')) = (None, [testUaid])"
    by (simp add: failingGenerator_def testDeps_def)
  show ?thesis
    using Hello_reset_drops_generator_error
      [OF decoded uaid chids decide gen router written, THEN conjunct2] decide gen0
    by simp
qed

end
